theory Spec2Isabelle
  imports Main
begin

section \<open>The tenant middleware of multi\_tenet/middleware/TenantMiddleware.py\<close>

text \<open>
  The middleware is one Python class with three methods. Its constructor fills a
  dictionary \<open>connection_pools\<close> by calling \<open>psycopg2.connect\<close> once per entry of
  \<open>settings.TENANT_DATABASES\<close>; its \<open>__call__\<close> reads the request header \<open>x-org\<close>,
  looks the tenant up in that dictionary and either answers with a JSON error or
  attaches the tenant to the request and hands the request to the next handler.

  Python names that start with an underscore are written without it:
  \<open>__init__\<close> is \<open>init\<close>, \<open>_initialize_pools\<close> is \<open>initialize_pools\<close> and
  \<open>__call__\<close> is \<open>call\<close>.
\<close>

subsection \<open>Data\<close>

text \<open>
  The values of a tenant's database configuration are Python strings or integers
  (a port is written either way). A configuration is a dictionary from the keys
  \<open>NAME\<close>, \<open>USER\<close>, \<open>PASSWORD\<close>, \<open>HOST\<close>, \<open>PORT\<close> to such values, and
  \<open>settings.TENANT_DATABASES\<close> is a dictionary of configurations; \<open>.items()\<close>
  walks it in insertion order, so it is the list of its items, whose keys are
  pairwise distinct.
\<close>

datatype pyval = PyInt int | PyStr string

type_synonym db_config = "string \<rightharpoonup> pyval"

type_synonym tenant_databases = "(string \<times> db_config) list"

text \<open>
  The arguments of the call on lines 19 to 26: the two positional arguments and the
  five keyword arguments.
\<close>

record connect_call =
  positional :: "int list"
  database :: pyval
  user :: pyval
  password :: pyval
  host :: pyval
  port :: pyval

text \<open>
  What the body of the \<open>try\<close> can raise: a \<open>KeyError\<close> from a subscript of
  \<open>db_config\<close>, or whatever \<open>psycopg2.connect\<close> raises (\<open>'e\<close> is the type of the
  library's errors). Both are instances of \<open>Exception\<close>, which is what line 27
  catches. An interrupt of the process during start-up is no construction failure and is
  not part of the model.
\<close>

datatype 'e exception = KeyError string | ConnectError 'e

datatype lock = Unlocked | Locked

text \<open>
  A response is the \<open>JsonResponse\<close> the middleware builds from a dictionary, or a
  response of the next handler's own making.
\<close>

datatype 'r HttpResponse = JsonResponse "(string \<times> string) list" | Handled 'r

text \<open>
  A request: \<open>headers\<close> is the lookup of Django's header mapping by header name
  (matching names the way Django does is the framework's business), and the two
  attributes the middleware sets are \<open>None\<close> as long as they are not set.
\<close>

record 'h HttpRequest =
  headers :: "string \<rightharpoonup> string"
  tenant_id :: "string option"
  db_pool :: "'h option"

text \<open>
  The instance. \<open>'h\<close> is the type of what \<open>psycopg2.connect\<close> returns, \<open>'w\<close> is
  the state of everything outside the middleware that the next handler can read and
  change (the database servers, the connection objects behind the handles), and \<open>'r\<close>
  is the type of the next handler's responses. The next handler receives the request,
  may change its attributes and the outside state, and returns a response. A handle is a
  reference: storing it on a request copies the reference, and the state of the object
  it refers to is part of the outside state.
\<close>

record ('h, 'w, 'r) TenantMiddleware =
  get_response :: "'h HttpRequest \<Rightarrow> 'w \<Rightarrow> 'r HttpResponse \<times> 'h HttpRequest \<times> 'w"
  connection_pools :: "string \<rightharpoonup> 'h"
  lock :: lock

subsection \<open>Initialization\<close>

text \<open>\<open>d[k]\<close> on a dictionary: the value, or \<open>KeyError\<close>.\<close>

definition subscript :: "db_config \<Rightarrow> string \<Rightarrow> 'e exception + pyval" where
  "subscript d k = (case d k of None \<Rightarrow> Inl (KeyError k) | Some v \<Rightarrow> Inr v)"

text \<open>
  The right-hand side of the assignment on lines 19 to 26. Python evaluates the keyword
  arguments from left to right, so the first missing key is the one reported, and calls
  \<open>psycopg2.connect\<close> only when all five are there. The library is not part of the
  repository: its \<open>connect\<close> is the parameter \<open>connect\<close>, which for a given call
  returns a handle (\<open>Inr\<close>) or raises (\<open>Inl\<close>). Every property below holds for
  every such function.
\<close>

definition connect_tenant ::
  "(connect_call \<Rightarrow> 'e + 'h) \<Rightarrow> db_config \<Rightarrow> 'e exception + 'h" where
  "connect_tenant connect db_config =
     (case subscript db_config ''NAME'' of Inl e \<Rightarrow> Inl e | Inr n \<Rightarrow>
      case subscript db_config ''USER'' of Inl e \<Rightarrow> Inl e | Inr u \<Rightarrow>
      case subscript db_config ''PASSWORD'' of Inl e \<Rightarrow> Inl e | Inr p \<Rightarrow>
      case subscript db_config ''HOST'' of Inl e \<Rightarrow> Inl e | Inr h \<Rightarrow>
      case subscript db_config ''PORT'' of Inl e \<Rightarrow> Inl e | Inr q \<Rightarrow>
      case connect \<lparr>positional = [1, 20], database = n, user = u, password = p,
                     host = h, port = q\<rparr> of
        Inl e \<Rightarrow> Inl (ConnectError e)
      | Inr c \<Rightarrow> Inr c)"

text \<open>
  The loop of \<open>_initialize_pools\<close>. Its state is the instance and what has been
  printed so far. The assignment to \<open>connection_pools[tenant_id]\<close> happens only
  after its right-hand side has returned; when that raises, the handler prints the
  exception and the loop goes on with the next item.
\<close>

fun initialize_pools ::
  "(connect_call \<Rightarrow> 'e + 'h) \<Rightarrow> tenant_databases \<Rightarrow>
   ('h, 'w, 'r) TenantMiddleware \<times> 'e exception list \<Rightarrow>
   ('h, 'w, 'r) TenantMiddleware \<times> 'e exception list" where
  "initialize_pools connect [] (self, out) = (self, out)"
| "initialize_pools connect ((tid, db_config) # rest) (self, out) =
     (case connect_tenant connect db_config of
        Inr c \<Rightarrow>
          initialize_pools connect rest
            (self\<lparr>connection_pools := (connection_pools self)(tid \<mapsto> c)\<rparr>, out)
      | Inl e \<Rightarrow> initialize_pools connect rest (self, out @ [e]))"

text \<open>
  The constructor: the next handler is stored, the dictionary starts empty, the lock is
  created (and never taken by any method), and the pools are initialized.
\<close>

definition init ::
  "('h HttpRequest \<Rightarrow> 'w \<Rightarrow> 'r HttpResponse \<times> 'h HttpRequest \<times> 'w) \<Rightarrow>
   (connect_call \<Rightarrow> 'e + 'h) \<Rightarrow> tenant_databases \<Rightarrow>
   ('h, 'w, 'r) TenantMiddleware \<times> 'e exception list" where
  "init next_handler connect TENANT_DATABASES =
     initialize_pools connect TENANT_DATABASES
       (\<lparr>get_response = next_handler, connection_pools = Map.empty, lock = Unlocked\<rparr>, [])"

subsection \<open>Dispatch\<close>

text \<open>\<open>d.get(k, default)\<close> on a mapping: the value, or the default.\<close>

definition dict_get :: "('k \<rightharpoonup> 'v) \<Rightarrow> 'k \<Rightarrow> 'v \<Rightarrow> 'v" where
  "dict_get d k dflt = (case d k of None \<Rightarrow> dflt | Some v \<Rightarrow> v)"

text \<open>
  \<open>__call__\<close>. The result is the response, the request as the method leaves it, the
  instance as the method leaves it, and the outside state as the method leaves it.
  The membership test of line 32 and the subscript of line 37 read the same dictionary
  with nothing in between, so they are one lookup here.
\<close>

definition call ::
  "('h, 'w, 'r) TenantMiddleware \<Rightarrow> 'h HttpRequest \<Rightarrow> 'w \<Rightarrow>
   'r HttpResponse \<times> 'h HttpRequest \<times> ('h, 'w, 'r) TenantMiddleware \<times> 'w" where
  "call self request w =
     (let tid = dict_get (headers request) ''x-org'' ''tenant1'' in
      case connection_pools self tid of
        None \<Rightarrow> (JsonResponse [(''error'', ''Invalid tenant'')], request, self, w)
      | Some pool \<Rightarrow>
          (case get_response self (request\<lparr>tenant_id := Some tid, db_pool := Some pool\<rparr>) w of
             (response, request', w') \<Rightarrow> (response, request', self, w')))"

subsection \<open>The life of an instance\<close>

text \<open>
  Django builds the middleware once and then calls it once per request. The instances
  that can be observed are the one the constructor returns and the ones a dispatch
  leaves behind, for any request and any outside state at the time of the dispatch.
\<close>

inductive reachable ::
  "('h HttpRequest \<Rightarrow> 'w \<Rightarrow> 'r HttpResponse \<times> 'h HttpRequest \<times> 'w) \<Rightarrow>
   (connect_call \<Rightarrow> 'e + 'h) \<Rightarrow> tenant_databases \<Rightarrow>
   ('h, 'w, 'r) TenantMiddleware \<Rightarrow> bool"
  for next_handler :: "'h HttpRequest \<Rightarrow> 'w \<Rightarrow> 'r HttpResponse \<times> 'h HttpRequest \<times> 'w"
  and connect :: "connect_call \<Rightarrow> 'e + 'h"
  and TENANT_DATABASES :: tenant_databases where
  constructed:
    "reachable next_handler connect TENANT_DATABASES
       (fst (init next_handler connect TENANT_DATABASES))"
| dispatched:
    "reachable next_handler connect TENANT_DATABASES self \<Longrightarrow>
     reachable next_handler connect TENANT_DATABASES (fst (snd (snd (call self request w))))"

subsection \<open>An example deployment\<close>

text \<open>
  Four tenants, in the order of the settings file. The second one's host refuses
  connections and the third one's configuration lacks its port; the first and the last
  are fine.
\<close>

definition example_config :: "string \<Rightarrow> string \<Rightarrow> db_config" where
  "example_config name h =
     [''NAME'' \<mapsto> PyStr name, ''USER'' \<mapsto> PyStr ''app'', ''PASSWORD'' \<mapsto> PyStr ''s3cret'',
      ''HOST'' \<mapsto> PyStr h, ''PORT'' \<mapsto> PyInt 5432]"

definition example_config_no_port :: db_config where
  "example_config_no_port =
     [''NAME'' \<mapsto> PyStr ''db_three'', ''USER'' \<mapsto> PyStr ''app'',
      ''PASSWORD'' \<mapsto> PyStr ''s3cret'', ''HOST'' \<mapsto> PyStr ''pg3.internal'']"

definition example_databases :: tenant_databases where
  "example_databases =
     [(''tenant1'', example_config ''db_one'' ''pg1.internal''),
      (''tenant2'', example_config ''db_two'' ''down.internal''),
      (''tenant3'', example_config_no_port),
      (''tenant4'', example_config ''db_four'' ''pg4.internal'')]"

text \<open>
  A library whose \<open>connect\<close> fails for the host that is down and otherwise returns,
  as the handle, the arguments it was called with.
\<close>

definition example_connect :: "connect_call \<Rightarrow> string + connect_call" where
  "example_connect c =
     (if host c = PyStr ''down.internal'' then Inl ''could not connect to server''
      else Inr c)"

text \<open>
  A next handler that answers with the tenant it finds on the request; the outside
  state counts how often it has run.
\<close>

definition example_handler ::
  "connect_call HttpRequest \<Rightarrow> nat \<Rightarrow> string option HttpResponse \<times> connect_call HttpRequest \<times> nat" where
  "example_handler request n = (Handled (tenant_id request), request, Suc n)"

definition example_request :: "string option \<Rightarrow> connect_call HttpRequest" where
  "example_request org =
     \<lparr>headers = (\<lambda>name. if name = ''x-org'' then org else None),
      tenant_id = None, db_pool = None\<rparr>"

definition example_handle :: "string \<Rightarrow> string \<Rightarrow> connect_call" where
  "example_handle name h =
     \<lparr>positional = [1, 20], database = PyStr name, user = PyStr ''app'',
      password = PyStr ''s3cret'', host = PyStr h, port = PyInt 5432\<rparr>"

section \<open>Properties\<close>

subsection \<open>The initialization loop\<close>

lemma initialize_pools_append:
  "initialize_pools connect (xs @ ys) s =
     initialize_pools connect ys (initialize_pools connect xs s)"
proof (induction xs arbitrary: s)
  case Nil
  show ?case by (cases s) simp
next
  case (Cons x xs)
  obtain tid cfg where x: "x = (tid, cfg)" by (cases x)
  obtain self out where s: "s = (self, out)" by (cases s)
  show ?case using Cons.IH by (simp add: x s split: sum.splits)
qed

lemma initialize_pools_lookup:
  "distinct (map fst cfgs) \<Longrightarrow>
   connection_pools (fst (initialize_pools connect cfgs (self, out))) t =
     (case map_of cfgs t of
        None \<Rightarrow> connection_pools self t
      | Some cfg \<Rightarrow>
          (case connect_tenant connect cfg of
             Inr c \<Rightarrow> Some c
           | Inl e \<Rightarrow> connection_pools self t))"
proof (induction cfgs arbitrary: self out)
  case Nil
  show ?case by simp
next
  case (Cons x cfgs)
  obtain tid cfg where x: "x = (tid, cfg)" by (cases x)
  from Cons.prems have d: "distinct (map fst cfgs)" and n: "tid \<notin> fst ` set cfgs"
    by (simp_all add: x)
  from n have m: "map_of cfgs tid = None" by (simp add: map_of_eq_None_iff)
  show ?case
  proof (cases "connect_tenant connect cfg")
    case (Inl e)
    then show ?thesis using Cons.IH [OF d, of self "out @ [e]"] m
      by (simp add: x split: option.splits)
  next
    case (Inr c)
    then show ?thesis
      using Cons.IH [OF d, of "self\<lparr>connection_pools := (connection_pools self)(tid \<mapsto> c)\<rparr>" out] m
      by (auto simp add: x split: option.splits sum.splits)
  qed
qed

lemma initialize_pools_entry:
  "connection_pools (fst (initialize_pools connect cfgs (self, out))) t = Some c \<Longrightarrow>
   connection_pools self t = Some c \<or>
   (\<exists>cfg. (t, cfg) \<in> set cfgs \<and> connect_tenant connect cfg = Inr c)"
proof (induction cfgs arbitrary: self out)
  case Nil
  then show ?case by simp
next
  case (Cons x cfgs)
  obtain tid cfg where x: "x = (tid, cfg)" by (cases x)
  show ?case
  proof (cases "connect_tenant connect cfg")
    case (Inl e)
    then show ?thesis using Cons.IH [of self "out @ [e]"] Cons.prems
      by (auto simp add: x)
  next
    case (Inr c')
    then show ?thesis
      using Cons.IH [of "self\<lparr>connection_pools := (connection_pools self)(tid \<mapsto> c')\<rparr>" out]
        Cons.prems
      by (auto simp add: x split: if_splits)
  qed
qed

lemma initialize_pools_printed:
  "snd (initialize_pools connect cfgs (self, out)) =
     out @ concat (map (\<lambda>(tid, cfg). case connect_tenant connect cfg of
                                        Inl e \<Rightarrow> [e] | Inr c \<Rightarrow> []) cfgs)"
proof (induction cfgs arbitrary: self out)
  case Nil
  show ?case by simp
next
  case (Cons x cfgs)
  obtain tid cfg where x: "x = (tid, cfg)" by (cases x)
  show ?case by (cases "connect_tenant connect cfg") (simp_all add: x Cons.IH)
qed

lemma initialize_pools_frame:
  "get_response (fst (initialize_pools connect cfgs (self, out))) = get_response self \<and>
   lock (fst (initialize_pools connect cfgs (self, out))) = lock self"
proof (induction cfgs arbitrary: self out)
  case Nil
  show ?case by simp
next
  case (Cons x cfgs)
  obtain tid cfg where x: "x = (tid, cfg)" by (cases x)
  show ?case by (cases "connect_tenant connect cfg") (simp_all add: x Cons.IH)
qed

lemma init_get_response: "get_response (fst (init nh connect cfgs)) = nh"
  by (simp add: init_def initialize_pools_frame)

lemma init_lookup:
  "distinct (map fst cfgs) \<Longrightarrow>
   connection_pools (fst (init nh connect cfgs)) t =
     (case map_of cfgs t of
        None \<Rightarrow> None
      | Some cfg \<Rightarrow> (case connect_tenant connect cfg of Inr c \<Rightarrow> Some c | Inl e \<Rightarrow> None))"
  by (simp add: init_def initialize_pools_lookup split: option.splits sum.splits)

lemma init_entry:
  "connection_pools (fst (init nh connect cfgs)) t = Some c \<Longrightarrow>
   \<exists>cfg. (t, cfg) \<in> set cfgs \<and> connect_tenant connect cfg = Inr c"
  unfolding init_def by (drule initialize_pools_entry) simp

subsection \<open>One dispatch\<close>

lemma call_absent:
  "connection_pools self (dict_get (headers request) ''x-org'' ''tenant1'') = None \<Longrightarrow>
   call self request w = (JsonResponse [(''error'', ''Invalid tenant'')], request, self, w)"
  by (simp add: call_def)

lemma call_present:
  "connection_pools self (dict_get (headers request) ''x-org'' ''tenant1'') = Some c \<Longrightarrow>
   call self request w =
     (case get_response self
             (request\<lparr>tenant_id := Some (dict_get (headers request) ''x-org'' ''tenant1''),
                       db_pool := Some c\<rparr>) w of
        (response, request', w') \<Rightarrow> (response, request', self, w'))"
  by (simp add: call_def)

lemma call_self: "fst (snd (snd (call self request w))) = self"
  by (simp add: call_def Let_def split: option.splits prod.splits)

lemma reachable_is_constructed:
  "reachable nh connect cfgs self \<Longrightarrow> self = fst (init nh connect cfgs)"
  by (induction rule: reachable.induct) (simp_all add: call_self)

subsection \<open>The example deployment, evaluated\<close>

lemma example_distinct: "distinct (map fst example_databases)"
  by (simp add: example_databases_def)

lemma example_connect_tenant:
  "connect_tenant example_connect (example_config name h) =
     (if h = ''down.internal'' then Inl (ConnectError ''could not connect to server'')
      else Inr (example_handle name h))"
  by (simp add: connect_tenant_def subscript_def example_config_def example_connect_def
      example_handle_def)

lemma example_connect_tenant_no_port:
  "connect_tenant example_connect example_config_no_port = Inl (KeyError ''PORT'')"
  by (simp add: connect_tenant_def subscript_def example_config_no_port_def)

lemma example_pools:
  "connection_pools (fst (init example_handler example_connect example_databases)) =
     [''tenant1'' \<mapsto> example_handle ''db_one'' ''pg1.internal'',
      ''tenant4'' \<mapsto> example_handle ''db_four'' ''pg4.internal'']"
  by (simp add: init_def example_databases_def example_connect_tenant
      example_connect_tenant_no_port)

section \<open>The claims\<close>

text \<open>
  C1. For every set of tenant configurations and every tenant identifier \<open>t\<close>: after
  the constructor has run, a dispatch that resolves \<open>t\<close> finds the handle that the
  construction for \<open>t\<close> returned, attaches it and hands the request on, whenever \<open>t\<close>
  is configured and its construction succeeded; and it fails (the unknown-tenant answer of
  line 33, with the request, the instance and the outside state untouched) whenever the
  construction for \<open>t\<close> raised or \<open>t\<close> is not configured at all. The configurations
  are the items of a dictionary, so their keys are distinct.
\<close>

theorem init_then_resolve:
  assumes "distinct (map fst cfgs)"
    and "dict_get (headers request) ''x-org'' ''tenant1'' = t"
  shows
    "((t, cfg) \<in> set cfgs \<and> connect_tenant connect cfg = Inr c \<longrightarrow>
        connection_pools (fst (init nh connect cfgs)) t = Some c \<and>
        call (fst (init nh connect cfgs)) request w =
          (case nh (request\<lparr>tenant_id := Some t, db_pool := Some c\<rparr>) w of
             (response, request', w') \<Rightarrow>
               (response, request', fst (init nh connect cfgs), w'))) \<and>
     ((t, cfg) \<in> set cfgs \<and> connect_tenant connect cfg = Inl e \<longrightarrow>
        call (fst (init nh connect cfgs)) request w =
          (JsonResponse [(''error'', ''Invalid tenant'')], request,
           fst (init nh connect cfgs), w)) \<and>
     (t \<notin> fst ` set cfgs \<longrightarrow>
        call (fst (init nh connect cfgs)) request w =
          (JsonResponse [(''error'', ''Invalid tenant'')], request,
           fst (init nh connect cfgs), w))"
proof -
  let ?self = "fst (init nh connect cfgs)"
  have gr: "get_response ?self = nh"
    by (rule init_get_response)
  have ok: "connection_pools ?self t = Some c"
    if "(t, cfg) \<in> set cfgs" "connect_tenant connect cfg = Inr c"
    using that assms(1) by (simp add: init_lookup)
  have bad: "connection_pools ?self t = None"
    if "(t, cfg) \<in> set cfgs" "connect_tenant connect cfg = Inl e"
    using that assms(1) by (simp add: init_lookup)
  have none: "connection_pools ?self t = None" if "t \<notin> fst ` set cfgs"
  proof -
    from that have "map_of cfgs t = None" by (simp add: map_of_eq_None_iff)
    then show ?thesis using assms(1) by (simp add: init_lookup)
  qed
  show ?thesis
    using ok bad none call_absent [of ?self request w] call_present [of ?self request c w]
    by (simp add: assms(2) gr)
qed

text \<open>
  The example deployment: \<open>tenant4\<close> is configured and reachable, \<open>tenant2\<close> is
  configured and down, \<open>tenant9\<close> is not configured.
\<close>

theorem init_then_resolve_witness:
  "call (fst (init example_handler example_connect example_databases))
     (example_request (Some ''tenant4'')) 0 =
     (Handled (Some ''tenant4''),
      (example_request (Some ''tenant4''))
        \<lparr>tenant_id := Some ''tenant4'',
         db_pool := Some (example_handle ''db_four'' ''pg4.internal'')\<rparr>,
      fst (init example_handler example_connect example_databases), 1) \<and>
   call (fst (init example_handler example_connect example_databases))
     (example_request (Some ''tenant2'')) 0 =
     (JsonResponse [(''error'', ''Invalid tenant'')], example_request (Some ''tenant2''),
      fst (init example_handler example_connect example_databases), 0) \<and>
   call (fst (init example_handler example_connect example_databases))
     (example_request (Some ''tenant9'')) 0 =
     (JsonResponse [(''error'', ''Invalid tenant'')], example_request (Some ''tenant9''),
      fst (init example_handler example_connect example_databases), 0)"
proof -
  have d: "distinct (map fst example_databases)"
    by (rule example_distinct)
  have h4: "dict_get (headers (example_request (Some ''tenant4''))) ''x-org'' ''tenant1'' = ''tenant4''"
    and h2: "dict_get (headers (example_request (Some ''tenant2''))) ''x-org'' ''tenant1'' = ''tenant2''"
    and h9: "dict_get (headers (example_request (Some ''tenant9''))) ''x-org'' ''tenant1'' = ''tenant9''"
    by (simp_all add: dict_get_def example_request_def)
  have m4: "(''tenant4'', example_config ''db_four'' ''pg4.internal'') \<in> set example_databases"
    and m2: "(''tenant2'', example_config ''db_two'' ''down.internal'') \<in> set example_databases"
    and m9: "''tenant9'' \<notin> fst ` set example_databases"
    by (simp_all add: example_databases_def)
  have c4: "connect_tenant example_connect (example_config ''db_four'' ''pg4.internal'') =
      Inr (example_handle ''db_four'' ''pg4.internal'')"
    and c2: "connect_tenant example_connect (example_config ''db_two'' ''down.internal'') =
      Inl (ConnectError ''could not connect to server'')"
    by (simp_all add: example_connect_tenant)
  show ?thesis
    using init_then_resolve [OF d h4, of "example_config ''db_four'' ''pg4.internal''"
        example_connect "example_handle ''db_four'' ''pg4.internal''" example_handler 0]
      init_then_resolve [OF d h2, of "example_config ''db_two'' ''down.internal''"
        example_connect _ example_handler 0 "ConnectError ''could not connect to server''"]
      init_then_resolve [OF d h9, of _ example_connect _ example_handler 0]
      m4 m2 m9 c4 c2
    by (simp add: example_handler_def)
qed


text \<open>
  C2. For every request without the header \<open>x-org\<close>, the dispatch resolves the
  default identifier \<open>tenant1\<close>: when \<open>tenant1\<close> is a key of the mapping, its handle
  and the identifier are attached to the request and the request goes to the next
  handler; otherwise the dispatch fails with the unknown-tenant answer.
\<close>

theorem call_default_tenant:
  assumes "headers request ''x-org'' = None"
  shows
    "(connection_pools self ''tenant1'' = Some c \<longrightarrow>
        call self request w =
          (case get_response self (request\<lparr>tenant_id := Some ''tenant1'', db_pool := Some c\<rparr>) w of
             (response, request', w') \<Rightarrow> (response, request', self, w'))) \<and>
     (connection_pools self ''tenant1'' = None \<longrightarrow>
        call self request w =
          (JsonResponse [(''error'', ''Invalid tenant'')], request, self, w))"
proof -
  from assms have t: "dict_get (headers request) ''x-org'' ''tenant1'' = ''tenant1''"
    by (simp add: dict_get_def)
  show ?thesis
    using call_absent [of self request w] call_present [of self request c w]
    by (simp add: t)
qed

text \<open>
  A request without the header, against the example deployment (where \<open>tenant1\<close> is
  in the mapping) and against a deployment with no tenants.
\<close>

theorem call_default_tenant_witness:
  "call (fst (init example_handler example_connect example_databases)) (example_request None) 0 =
     (Handled (Some ''tenant1''),
      (example_request None)
        \<lparr>tenant_id := Some ''tenant1'',
         db_pool := Some (example_handle ''db_one'' ''pg1.internal'')\<rparr>,
      fst (init example_handler example_connect example_databases), 1) \<and>
   call (fst (init example_handler example_connect [])) (example_request None) 0 =
     (JsonResponse [(''error'', ''Invalid tenant'')], example_request None,
      fst (init example_handler example_connect []), 0)"
proof -
  have h: "headers (example_request None) ''x-org'' = None"
    by (simp add: example_request_def)
  have p: "connection_pools (fst (init example_handler example_connect example_databases))
      ''tenant1'' = Some (example_handle ''db_one'' ''pg1.internal'')"
    by (simp add: example_pools)
  have q: "connection_pools (fst (init example_handler example_connect [])) ''tenant1'' = None"
    by (simp add: init_def)
  show ?thesis
    using call_default_tenant [OF h,
        of "fst (init example_handler example_connect example_databases)"
          "example_handle ''db_one'' ''pg1.internal''" 0]
      call_default_tenant [OF h, of "fst (init example_handler example_connect [])" _ 0]
      p q
    by (simp add: init_get_response example_handler_def)
qed

text \<open>
  C3. A construction failure for one tenant does not abort the initialization of the
  others. When the construction for \<open>t\<close> raises \<open>e\<close>, the constructor's result is
  that of the loop run over the tenants after \<open>t\<close>, started from the instance the
  tenants before \<open>t\<close> have left and with \<open>e\<close> printed: every later tenant is still
  attempted. The identifier \<open>t\<close> is not a key of the resulting mapping, and every other
  tenant whose construction succeeded is a key of it, with its handle, and a dispatch for
  it goes through.
\<close>

theorem failed_tenant_is_skipped:
  assumes "distinct (map fst (before @ (t, cfg) # after))"
    and "connect_tenant connect cfg = Inl e"
  shows
    "init nh connect (before @ (t, cfg) # after) =
       initialize_pools connect after
         (fst (init nh connect before), snd (init nh connect before) @ [e]) \<and>
     connection_pools (fst (init nh connect (before @ (t, cfg) # after))) t = None \<and>
     ((t', cfg') \<in> set (before @ after) \<and> connect_tenant connect cfg' = Inr c \<longrightarrow>
        connection_pools (fst (init nh connect (before @ (t, cfg) # after))) t' = Some c \<and>
        (dict_get (headers request) ''x-org'' ''tenant1'' = t' \<longrightarrow>
           call (fst (init nh connect (before @ (t, cfg) # after))) request w =
             (case nh (request\<lparr>tenant_id := Some t', db_pool := Some c\<rparr>) w of
                (response, request', w') \<Rightarrow>
                  (response, request', fst (init nh connect (before @ (t, cfg) # after)), w'))))"
proof -
  let ?all = "before @ (t, cfg) # after"
  let ?self = "fst (init nh connect ?all)"
  have step: "init nh connect ?all =
      initialize_pools connect after
        (fst (init nh connect before), snd (init nh connect before) @ [e])"
    unfolding init_def initialize_pools_append
    by (cases "initialize_pools connect before
          (\<lparr>get_response = nh, connection_pools = Map.empty, lock = Unlocked\<rparr>, [])")
      (simp add: assms(2))
  have m: "map_of ?all t = Some cfg"
    using assms(1) by (intro map_of_is_SomeI) simp_all
  have gone: "connection_pools ?self t = None"
    using assms by (simp only: init_lookup [OF assms(1)] m) simp
  have kept: "connection_pools ?self t' = Some c"
    if "(t', cfg') \<in> set (before @ after)" "connect_tenant connect cfg' = Inr c"
  proof -
    from that(1) have "(t', cfg') \<in> set ?all" by auto
    with assms(1) have "map_of ?all t' = Some cfg'" by (intro map_of_is_SomeI)
    then show ?thesis by (simp only: init_lookup [OF assms(1)]) (simp add: that(2))
  qed
  have resolvable: "call ?self request w =
      (case nh (request\<lparr>tenant_id := Some t', db_pool := Some c\<rparr>) w of
         (response, request', w') \<Rightarrow> (response, request', ?self, w'))"
    if "(t', cfg') \<in> set (before @ after)" "connect_tenant connect cfg' = Inr c"
      "dict_get (headers request) ''x-org'' ''tenant1'' = t'"
    using call_present [of ?self request c w] kept [OF that(1,2)] that(3)
    by (simp add: init_get_response)
  show ?thesis using step gone kept resolvable by blast
qed

text \<open>
  The example deployment, split at \<open>tenant2\<close>, whose host is down: \<open>tenant3\<close> and
  \<open>tenant4\<close> are still attempted (the failure of \<open>tenant3\<close> is printed after that of
  \<open>tenant2\<close>, and \<open>tenant4\<close> is in the mapping), and \<open>tenant1\<close> resolves.
\<close>

theorem failed_tenant_is_skipped_witness:
  "init example_handler example_connect example_databases =
     initialize_pools example_connect
       [(''tenant3'', example_config_no_port),
        (''tenant4'', example_config ''db_four'' ''pg4.internal'')]
       (fst (init example_handler example_connect
               [(''tenant1'', example_config ''db_one'' ''pg1.internal'')]),
        snd (init example_handler example_connect
               [(''tenant1'', example_config ''db_one'' ''pg1.internal'')]) @
        [ConnectError ''could not connect to server'']) \<and>
   snd (init example_handler example_connect example_databases) =
     [ConnectError ''could not connect to server'', KeyError ''PORT''] \<and>
   connection_pools (fst (init example_handler example_connect example_databases)) ''tenant2'' =
     None \<and>
   connection_pools (fst (init example_handler example_connect example_databases)) ''tenant4'' =
     Some (example_handle ''db_four'' ''pg4.internal'') \<and>
   call (fst (init example_handler example_connect example_databases))
     (example_request (Some ''tenant1'')) 0 =
     (Handled (Some ''tenant1''),
      (example_request (Some ''tenant1''))
        \<lparr>tenant_id := Some ''tenant1'',
         db_pool := Some (example_handle ''db_one'' ''pg1.internal'')\<rparr>,
      fst (init example_handler example_connect example_databases), 1)"
proof -
  let ?before = "[(''tenant1'', example_config ''db_one'' ''pg1.internal'')]"
  let ?after = "[(''tenant3'', example_config_no_port),
                 (''tenant4'', example_config ''db_four'' ''pg4.internal'')]"
  let ?down = "example_config ''db_two'' ''down.internal''"
  let ?request = "example_request (Some ''tenant1'')"
  have split: "example_databases = ?before @ (''tenant2'', ?down) # ?after"
    by (simp add: example_databases_def)
  have d: "distinct (map fst (?before @ (''tenant2'', ?down) # ?after))"
    by simp
  have f: "connect_tenant example_connect ?down =
      Inl (ConnectError ''could not connect to server'')"
    by (simp add: example_connect_tenant)
  have h: "dict_get (headers ?request) ''x-org'' ''tenant1'' = ''tenant1''"
    by (simp add: dict_get_def example_request_def)
  have c1: "connect_tenant example_connect (example_config ''db_one'' ''pg1.internal'') =
      Inr (example_handle ''db_one'' ''pg1.internal'')"
    and c4: "connect_tenant example_connect (example_config ''db_four'' ''pg4.internal'') =
      Inr (example_handle ''db_four'' ''pg4.internal'')"
    by (simp_all add: example_connect_tenant)
  have m1: "(''tenant1'', example_config ''db_one'' ''pg1.internal'') \<in> set (?before @ ?after)"
    and m4: "(''tenant4'', example_config ''db_four'' ''pg4.internal'') \<in> set (?before @ ?after)"
    by simp_all
  note later =
    failed_tenant_is_skipped [OF d f, of example_handler "''tenant4''"
      "example_config ''db_four'' ''pg4.internal''"
      "example_handle ''db_four'' ''pg4.internal''" ?request 0, folded split]
  note earlier =
    failed_tenant_is_skipped [OF d f, of example_handler "''tenant1''"
      "example_config ''db_one'' ''pg1.internal''"
      "example_handle ''db_one'' ''pg1.internal''" ?request 0, folded split]
  from later have continues:
    "init example_handler example_connect example_databases =
       initialize_pools example_connect ?after
         (fst (init example_handler example_connect ?before),
          snd (init example_handler example_connect ?before) @
          [ConnectError ''could not connect to server''])"
    by (rule conjunct1)
  have "snd (init example_handler example_connect ?before) = []"
    by (simp add: init_def c1)
  then have printed: "snd (init example_handler example_connect example_databases) =
      [ConnectError ''could not connect to server'', KeyError ''PORT'']"
    by (simp add: continues example_connect_tenant_no_port c4)
  from later have gone:
    "connection_pools (fst (init example_handler example_connect example_databases))
       ''tenant2'' = None"
    by blast
  from later m4 c4 have kept:
    "connection_pools (fst (init example_handler example_connect example_databases))
       ''tenant4'' = Some (example_handle ''db_four'' ''pg4.internal'')"
    by blast
  from earlier m1 c1 h have
    "call (fst (init example_handler example_connect example_databases)) ?request 0 =
       (case example_handler
               (?request\<lparr>tenant_id := Some ''tenant1'',
                          db_pool := Some (example_handle ''db_one'' ''pg1.internal'')\<rparr>) 0 of
          (response, request', w') \<Rightarrow>
            (response, request',
             fst (init example_handler example_connect example_databases), w'))"
    by blast
  then have resolvable:
    "call (fst (init example_handler example_connect example_databases)) ?request 0 =
       (Handled (Some ''tenant1''),
        ?request\<lparr>tenant_id := Some ''tenant1'',
                   db_pool := Some (example_handle ''db_one'' ''pg1.internal'')\<rparr>,
        fst (init example_handler example_connect example_databases), 1)"
    by (simp add: example_handler_def)
  from continues printed gone kept resolvable show ?thesis
    by (intro conjI)
qed

text \<open>
  C4, as stated: for an identifier that is not in the mapping the dispatch fails with an
  error value that carries the offending identifier, and the registry builds no
  protocol-level response. The code does neither. For the unknown identifier \<open>acme\<close>
  the result of \<open>__call__\<close> is a JSON response that the middleware has built itself,
  and for the unknown identifier \<open>globex\<close> it is the very same response: nothing in it
  tells the two identifiers apart.
\<close>

theorem unknown_tenant_answer_counterexample:
  "fst (call (fst (init example_handler example_connect example_databases))
          (example_request (Some ''acme'')) 0) =
     JsonResponse [(''error'', ''Invalid tenant'')] \<and>
   fst (call (fst (init example_handler example_connect example_databases))
          (example_request (Some ''globex'')) 0) =
     fst (call (fst (init example_handler example_connect example_databases))
            (example_request (Some ''acme'')) 0)"
  by (simp add: call_def dict_get_def example_request_def example_pools)

text \<open>
  C4, amended: for every identifier that is not in the mapping, the dispatch itself
  builds and returns the JSON response with the single entry \<open>error\<close>:
  \<open>Invalid tenant\<close>; the response is the same for every such identifier and every
  outside state, so it does not carry the identifier.
\<close>

theorem unknown_tenant_answer:
  assumes "connection_pools self (dict_get (headers request) ''x-org'' ''tenant1'') = None"
    and "connection_pools self (dict_get (headers other) ''x-org'' ''tenant1'') = None"
  shows "fst (call self request w) = JsonResponse [(''error'', ''Invalid tenant'')] \<and>
         fst (call self other v) = fst (call self request w)"
  using assms by (simp add: call_absent)

text \<open>
  With no tenants configured, a request without the header and a request for
  \<open>tenant7\<close> get the same answer.
\<close>

theorem unknown_tenant_answer_witness:
  "fst (call (fst (init example_handler example_connect [])) (example_request None) 0) =
     JsonResponse [(''error'', ''Invalid tenant'')] \<and>
   fst (call (fst (init example_handler example_connect []))
          (example_request (Some ''tenant7'')) 5) =
     fst (call (fst (init example_handler example_connect [])) (example_request None) 0)"
proof -
  have a: "connection_pools (fst (init example_handler example_connect []))
      (dict_get (headers (example_request None)) ''x-org'' ''tenant1'') = None"
    and b: "connection_pools (fst (init example_handler example_connect []))
      (dict_get (headers (example_request (Some ''tenant7''))) ''x-org'' ''tenant1'') = None"
    by (simp_all add: init_def)
  show ?thesis using unknown_tenant_answer [OF a b, of 0 5] by simp
qed

text \<open>
  C5. The claim asks for a bounded pool of minimum size 1 and maximum size 20 as the value
  stored for a tenant. The code calls \<open>psycopg2.connect\<close>, the library's function that
  opens one connection, and hands it \<open>1\<close> and \<open>20\<close> as its two leading positional
  arguments next to the tenant's database, user, password, host and port: whatever the
  library's \<open>connect\<close> does with that call, the value stored for the tenant is what that
  one call returned, and nothing is stored when it raised. No pool constructor is called
  anywhere.
\<close>

theorem stored_value_is_connect_result:
  "connection_pools
     (fst (init nh connect [(''tenant1'', example_config ''db_one'' ''pg1.internal'')]))
     ''tenant1'' =
   (case connect \<lparr>positional = [1, 20], database = PyStr ''db_one'', user = PyStr ''app'',
                   password = PyStr ''s3cret'', host = PyStr ''pg1.internal'',
                   port = PyInt 5432\<rparr> of
      Inl e \<Rightarrow> None
    | Inr c \<Rightarrow> Some c)"
  by (simp add: init_def connect_tenant_def subscript_def example_config_def
      split: sum.splits)

text \<open>
  C6. The invariant of the mapping, on every instance that can be observed (the one the
  constructor returns and every one a dispatch leaves): a value stored for \<open>t\<close> is the
  handle that the construction for a configuration of \<open>t\<close> returned, complete and as
  returned; and a tenant whose construction raised has no entry at all, neither a partial
  nor an empty one. Whether the handle still works later depends on the database server
  and is no property of the mapping.
\<close>

theorem registry_entries_are_constructed:
  assumes "reachable nh connect cfgs self"
  shows
    "(connection_pools self t = Some c \<longrightarrow>
        (\<exists>cfg. (t, cfg) \<in> set cfgs \<and> connect_tenant connect cfg = Inr c)) \<and>
     (distinct (map fst cfgs) \<and> (t, cfg') \<in> set cfgs \<and>
      connect_tenant connect cfg' = Inl e \<longrightarrow> connection_pools self t = None)"
proof -
  from assms have self: "self = fst (init nh connect cfgs)"
    by (rule reachable_is_constructed)
  have "connection_pools self t = None"
    if "distinct (map fst cfgs)" "(t, cfg') \<in> set cfgs" "connect_tenant connect cfg' = Inl e"
    using that by (simp add: self init_lookup)
  then show ?thesis using init_entry [of nh connect cfgs t c] by (auto simp add: self)
qed

text \<open>
  The example deployment after one dispatch: the entry of \<open>tenant4\<close> is the handle its
  construction returned, and \<open>tenant2\<close>, whose construction raised, has none.
\<close>

theorem registry_entries_are_constructed_witness:
  "connection_pools
     (fst (snd (snd (call (fst (init example_handler example_connect example_databases))
                      (example_request (Some ''tenant4'')) 0)))) ''tenant4'' =
     Some (example_handle ''db_four'' ''pg4.internal'') \<and>
   (\<exists>cfg. (''tenant4'', cfg) \<in> set example_databases \<and>
          connect_tenant example_connect cfg = Inr (example_handle ''db_four'' ''pg4.internal'')) \<and>
   connection_pools
     (fst (snd (snd (call (fst (init example_handler example_connect example_databases))
                      (example_request (Some ''tenant4'')) 0)))) ''tenant2'' = None"
proof -
  let ?after = "fst (snd (snd (call (fst (init example_handler example_connect example_databases))
                      (example_request (Some ''tenant4'')) 0)))"
  have r: "reachable example_handler example_connect example_databases ?after"
    by (rule reachable.dispatched [OF reachable.constructed])
  have p: "connection_pools ?after ''tenant4'' = Some (example_handle ''db_four'' ''pg4.internal'')"
    by (simp add: call_self example_pools)
  have m: "(''tenant2'', example_config ''db_two'' ''down.internal'') \<in> set example_databases"
    by (simp add: example_databases_def)
  have f: "connect_tenant example_connect (example_config ''db_two'' ''down.internal'') =
      Inl (ConnectError ''could not connect to server'')"
    by (simp add: example_connect_tenant)
  show ?thesis
    using registry_entries_are_constructed [OF r, of "''tenant4''"
        "example_handle ''db_four'' ''pg4.internal''" _ _]
      registry_entries_are_constructed [OF r, of "''tenant2''" _
        "example_config ''db_two'' ''down.internal''"
        "ConnectError ''could not connect to server''"]
      p m f example_distinct
    by simp
qed

text \<open>
  C7. A dispatch only locates the handle. It returns the instance it was given, mapping
  included. When the tenant is unknown the outside state, which holds the state of every
  connection, is the one it was given. When the tenant is known, the middleware's own
  steps are the lookup and the two attribute assignments on the request: the next handler
  is started in exactly the outside state the dispatch was given, and what the dispatch
  returns is what that handler returns. Nothing is checked out or used before the
  hand-over.
\<close>

theorem call_only_locates_the_handle:
  "fst (snd (snd (call self request w))) = self \<and>
   (case connection_pools self (dict_get (headers request) ''x-org'' ''tenant1'') of
      None \<Rightarrow> snd (snd (snd (call self request w))) = w
    | Some c \<Rightarrow>
        call self request w =
          (case get_response self
                  (request\<lparr>tenant_id := Some (dict_get (headers request) ''x-org'' ''tenant1''),
                            db_pool := Some c\<rparr>) w of
             (response, request', w') \<Rightarrow> (response, request', self, w')))"
proof (cases "connection_pools self (dict_get (headers request) ''x-org'' ''tenant1'')")
  case None
  then have "call self request w =
      (JsonResponse [(''error'', ''Invalid tenant'')], request, self, w)"
    by (rule call_absent)
  with None show ?thesis by simp
next
  case (Some c)
  then have "call self request w =
      (case get_response self
              (request\<lparr>tenant_id := Some (dict_get (headers request) ''x-org'' ''tenant1''),
                        db_pool := Some c\<rparr>) w of
         (response, request', w') \<Rightarrow> (response, request', self, w'))"
    by (rule call_present)
  with Some call_self [of self request w] show ?thesis by simp
qed

text \<open>
  The example deployment in outside state 7: for \<open>tenant4\<close> the state after the
  dispatch is the one the handler produces from 7, for \<open>tenant2\<close> it is 7.
\<close>

theorem call_only_locates_the_handle_witness:
  "fst (snd (snd (call (fst (init example_handler example_connect example_databases))
                    (example_request (Some ''tenant4'')) 7))) =
     fst (init example_handler example_connect example_databases) \<and>
   snd (snd (snd (call (fst (init example_handler example_connect example_databases))
                    (example_request (Some ''tenant4'')) 7))) =
     snd (snd (example_handler
                 ((example_request (Some ''tenant4''))
                    \<lparr>tenant_id := Some ''tenant4'',
                     db_pool := Some (example_handle ''db_four'' ''pg4.internal'')\<rparr>) 7)) \<and>
   snd (snd (snd (call (fst (init example_handler example_connect example_databases))
                    (example_request (Some ''tenant2'')) 7))) = 7"
proof -
  have h4: "dict_get (headers (example_request (Some ''tenant4''))) ''x-org'' ''tenant1'' =
      ''tenant4''"
    and h2: "dict_get (headers (example_request (Some ''tenant2''))) ''x-org'' ''tenant1'' =
      ''tenant2''"
    by (simp_all add: dict_get_def example_request_def)
  show ?thesis
    using call_only_locates_the_handle
        [of "fst (init example_handler example_connect example_databases)"
          "example_request (Some ''tenant4'')" 7]
      call_only_locates_the_handle
        [of "fst (init example_handler example_connect example_databases)"
          "example_request (Some ''tenant2'')" 7]
    by (simp add: h4 h2 example_pools init_get_response split: prod.splits)
qed

text \<open>
  C9. When the resolved identifier is not in the mapping, \<open>__call__\<close> returns the
  error response and leaves the request (no \<open>tenant_id\<close>, no \<open>db_pool\<close> attached),
  the instance and the outside state as they were. This holds whatever the next handler
  \<open>g\<close> is, also for one that changes the outside state whenever it runs: it is not
  invoked.
\<close>

theorem call_unknown_tenant_untouched:
  assumes "connection_pools self (dict_get (headers request) ''x-org'' ''tenant1'') = None"
  shows "call (self\<lparr>get_response := g\<rparr>) request w =
           (JsonResponse [(''error'', ''Invalid tenant'')], request,
            self\<lparr>get_response := g\<rparr>, w)"
  using assms by (simp add: call_def)

text \<open>
  The example handler counts its runs in the outside state; after a dispatch for
  \<open>tenant3\<close>, which is not in the mapping, the count is still 0 and the request has
  no attribute set.
\<close>

theorem call_unknown_tenant_untouched_witness:
  "call ((fst (init example_handler example_connect example_databases))
           \<lparr>get_response := example_handler\<rparr>)
     (example_request (Some ''tenant3'')) 0 =
     (JsonResponse [(''error'', ''Invalid tenant'')],
      \<lparr>headers = (\<lambda>name. if name = ''x-org'' then Some ''tenant3'' else None),
       tenant_id = None, db_pool = None\<rparr>,
      (fst (init example_handler example_connect example_databases))
        \<lparr>get_response := example_handler\<rparr>, 0)"
proof -
  have a: "connection_pools (fst (init example_handler example_connect example_databases))
      (dict_get (headers (example_request (Some ''tenant3''))) ''x-org'' ''tenant1'') = None"
    by (simp add: dict_get_def example_request_def example_pools)
  show ?thesis
    using call_unknown_tenant_untouched [OF a, of example_handler 0]
    by (simp add: example_request_def)
qed

text \<open>
  C10. After the constructor has returned, the mapping is never changed again: on every
  instance that can be observed the mapping is the one the constructor built, and a
  further dispatch, for any request in any outside state, leaves that same mapping.
\<close>

theorem connection_pools_fixed_after_init:
  assumes "reachable nh connect cfgs self"
  shows "connection_pools self = connection_pools (fst (init nh connect cfgs)) \<and>
         connection_pools (fst (snd (snd (call self request w)))) =
           connection_pools (fst (init nh connect cfgs))"
  using reachable_is_constructed [OF assms] by (simp add: call_self)

text \<open>
  The example deployment after a successful and a failed dispatch: the mapping is the one
  built at initialization.
\<close>

theorem connection_pools_fixed_after_init_witness:
  "connection_pools
     (fst (snd (snd (call
        (fst (snd (snd (call (fst (init example_handler example_connect example_databases))
                         (example_request (Some ''tenant1'')) 0))))
        (example_request (Some ''tenant2'')) 1)))) =
     [''tenant1'' \<mapsto> example_handle ''db_one'' ''pg1.internal'',
      ''tenant4'' \<mapsto> example_handle ''db_four'' ''pg4.internal'']"
proof -
  have r: "reachable example_handler example_connect example_databases
      (fst (snd (snd (call (fst (init example_handler example_connect example_databases))
                       (example_request (Some ''tenant1'')) 0))))"
    by (rule reachable.dispatched [OF reachable.constructed])
  show ?thesis
    using connection_pools_fixed_after_init [OF r, of "example_request (Some ''tenant2'')" 1]
    by (simp only: example_pools)
qed

end
